theory Spec2Isabelle
  imports Complex_Main "HOL-Library.Char_ord" "HOL-Library.List_Lexorder"
begin

section \<open>JavaScript strings\<close>

text \<open>
  A JavaScript string is a sequence of UTF-16 code units. The model uses \<^typ>\<open>string\<close>,
  whose characters are the code units \<open>U+0000\<close> to \<open>U+00FF\<close> (a decoded a-tilde is the one
  character \<open>0xE3\<close>). Within that range the functions below are the ECMAScript ones.
\<close>

definition cc :: "char \<Rightarrow> nat" where
  "cc c = of_char c"

text \<open>ECMAScript \<open>WhiteSpace\<close> and \<open>LineTerminator\<close> (what \<open>trim\<close> removes and \<open>\s\<close> matches):
  TAB, LF, VT, FF, CR, SPACE and NBSP are the members below \<open>U+0100\<close>.\<close>

definition isWhiteSpace :: "char \<Rightarrow> bool" where
  "isWhiteSpace c = (cc c \<in> {9, 10, 11, 12, 13, 32, 160})"

text \<open>\<open>\d\<close> in a regular expression without the \<open>u\<close> flag: the ten ASCII digits.\<close>

definition isDigit :: "char \<Rightarrow> bool" where
  "isDigit c = (48 \<le> cc c \<and> cc c \<le> 57)"

definition trimStart :: "string \<Rightarrow> string" where
  "trimStart s = dropWhile isWhiteSpace s"

definition trim :: "string \<Rightarrow> string" where
  "trim s = rev (dropWhile isWhiteSpace (rev (dropWhile isWhiteSpace s)))"

text \<open>\<open>String.prototype.toLowerCase\<close>: \<open>A-Z\<close> and the Latin-1 capitals \<open>U+00C0..U+00DE\<close>
  (without the multiplication sign \<open>U+00D7\<close>) move up by 32.\<close>

definition lowerChar :: "char \<Rightarrow> char" where
  "lowerChar c =
     (if (65 \<le> cc c \<and> cc c \<le> 90) \<or> (192 \<le> cc c \<and> cc c \<le> 222 \<and> cc c \<noteq> 215)
      then char_of (cc c + 32) else c)"

definition toLowerCase :: "string \<Rightarrow> string" where
  "toLowerCase s = map lowerChar s"

text \<open>\<open>s.split(c)\<close> for a separator of one character: never the empty array.\<close>

fun splitOn :: "char \<Rightarrow> string \<Rightarrow> string list" where
  "splitOn c [] = [[]]"
| "splitOn c (x # xs) =
     (if x = c then [] # splitOn c xs
      else (case splitOn c xs of
              [] \<Rightarrow> [[x]]
            | p # ps \<Rightarrow> (x # p) # ps))"

definition includesChar :: "string \<Rightarrow> char \<Rightarrow> bool" where
  "includesChar s c = (c \<in> set s)"

definition endsWith :: "string \<Rightarrow> string \<Rightarrow> bool" where
  "endsWith s suf = (length suf \<le> length s \<and> drop (length s - length suf) s = suf)"

text \<open>\<open>s.padStart(n, "0")\<close>.\<close>

definition padStart0 :: "nat \<Rightarrow> string \<Rightarrow> string" where
  "padStart0 n s = replicate (n - length s) (CHR ''0'') @ s"

text \<open>\<open>s.replace(c, d)\<close> with a string pattern of one character: only the first
  occurrence is replaced.\<close>

fun replaceFirst :: "char \<Rightarrow> char \<Rightarrow> string \<Rightarrow> string" where
  "replaceFirst c d [] = []"
| "replaceFirst c d (x # xs) = (if x = c then d # xs else x # replaceFirst c d xs)"

section \<open>Header standardisation (preprocess.ts, index.ts)\<close>

text \<open>\<open>.replace(/\s+/g, "_")\<close>: every maximal run of white space becomes one underscore.\<close>

function replaceWsRuns :: "string \<Rightarrow> string" where
  "replaceWsRuns [] = []"
| "replaceWsRuns (c # cs) =
     (if isWhiteSpace c then CHR ''_'' # replaceWsRuns (dropWhile isWhiteSpace cs)
      else c # replaceWsRuns cs)"
  by pat_completeness auto
termination
  by (relation "measure length") (auto simp: length_dropWhile_le le_imp_less_Suc)

text \<open>The character class \<open>[a-z0-9_]\<close>.\<close>

definition isHeaderChar :: "char \<Rightarrow> bool" where
  "isHeaderChar c = ((97 \<le> cc c \<and> cc c \<le> 122) \<or> (48 \<le> cc c \<and> cc c \<le> 57) \<or> cc c = 95)"

text \<open>\<open>.replace(/[^a-z0-9_]/g, "")\<close>.\<close>

definition stripNonHeaderChars :: "string \<Rightarrow> string" where
  "stripNonHeaderChars s = filter isHeaderChar s"

definition standardizeHeader :: "string \<Rightarrow> string" where
  "standardizeHeader header =
     stripNonHeaderChars (replaceWsRuns (toLowerCase (trim header)))"


section \<open>JavaScript numbers\<close>

text \<open>
  A Number is \<open>NaN\<close>, one of the two infinities, or a finite double. A finite double is
  represented by the exact rational value of the decimal text it was read from: \<open>Fin q\<close> is
  the double nearest to \<open>q\<close>. Rounding to 53 bits is not modelled; whether the rounded
  value is finite is: a decimal of magnitude at least \<open>2^1024 - 2^970\<close> rounds to an
  infinity (round to nearest, ties to even), every smaller one to a finite double.
\<close>

datatype jsnum = NaN | PosInfinity | NegInfinity | Fin rat

definition isFinite :: "jsnum \<Rightarrow> bool" where
  "isFinite n = (case n of Fin q \<Rightarrow> True | _ \<Rightarrow> False)"

definition isNaN :: "jsnum \<Rightarrow> bool" where
  "isNaN n = (n = NaN)"

definition startsWith :: "string \<Rightarrow> string \<Rightarrow> bool" where
  "startsWith s p = (take (length p) s = p)"

definition digitsValue :: "string \<Rightarrow> nat" where
  "digitsValue ds = foldl (\<lambda>a c. 10 * a + (cc c - 48)) 0 ds"

definition pow10 :: "int \<Rightarrow> rat" where
  "pow10 e = (if 0 \<le> e then 10 ^ nat e else 1 / 10 ^ nat (- e))"

text \<open>The value of a decimal literal of magnitude \<open>q\<close> as a Number.\<close>

definition roundToNumber :: "bool \<Rightarrow> rat \<Rightarrow> jsnum" where
  "roundToNumber negative q =
     (if 2 ^ 1024 - 2 ^ 970 \<le> q then (if negative then NegInfinity else PosInfinity)
      else Fin (if negative then - q else q))"

text \<open>\<open>ExponentPart\<close> at the head of the text: \<open>e\<close> or \<open>E\<close>, an optional sign and at least
  one digit; the exponent is 0 when no exponent part stands there.\<close>

definition exponentPart :: "string \<Rightarrow> int" where
  "exponentPart r =
     (if r \<noteq> [] \<and> (hd r = CHR ''e'' \<or> hd r = CHR ''E'') then
        (let r1 = tl r;
             negative = (r1 \<noteq> [] \<and> hd r1 = CHR ''-'');
             r2 = (if r1 \<noteq> [] \<and> (hd r1 = CHR ''+'' \<or> hd r1 = CHR ''-'') then tl r1 else r1);
             ds = takeWhile isDigit r2
         in if ds = [] then 0
            else if negative then - int (digitsValue ds) else int (digitsValue ds))
      else 0)"

text \<open>The longest prefix that is a \<open>StrUnsignedDecimalLiteral\<close> other than
  \<open>Infinity\<close>, as its exact value: digits, an optional fraction, an optional exponent;
  \<open>None\<close> when no prefix is one.\<close>

definition unsignedDecimal :: "string \<Rightarrow> rat option" where
  "unsignedDecimal s =
     (let ip = takeWhile isDigit s; r = dropWhile isDigit s in
      if r \<noteq> [] \<and> hd r = CHR ''.'' then
        (let fp = takeWhile isDigit (tl r); r2 = dropWhile isDigit (tl r) in
         if ip = [] \<and> fp = [] then None
         else Some (of_nat (digitsValue (ip @ fp)) * pow10 (exponentPart r2 - int (length fp))))
      else if ip = [] then None
      else Some (of_nat (digitsValue ip) * pow10 (exponentPart r)))"

text \<open>The global \<open>parseFloat\<close>: leading white space is skipped, then the longest prefix
  that is a \<open>StrDecimalLiteral\<close> is read; \<open>NaN\<close> when there is none.\<close>

definition parseFloat :: "string \<Rightarrow> jsnum" where
  "parseFloat s =
     (let t = trimStart s;
          negative = (t \<noteq> [] \<and> hd t = CHR ''-'');
          u = (if t \<noteq> [] \<and> (hd t = CHR ''+'' \<or> hd t = CHR ''-'') then tl t else t)
      in if startsWith u ''Infinity'' then (if negative then NegInfinity else PosInfinity)
         else (case unsignedDecimal u of
                 None \<Rightarrow> NaN
               | Some q \<Rightarrow> roundToNumber negative q))"

text \<open>Decimal text of a natural number (\<open>String(n)\<close>, template literals).\<close>

fun showNat :: "nat \<Rightarrow> string" where
  "showNat n =
     (if n < 10 then [char_of (48 + n)]
      else showNat (n div 10) @ [char_of (48 + n mod 10)])"

declare showNat.simps [simp del]

section \<open>Utilities (isValidTime, combineDateTime, detectDelimiter, detectFileFormat)\<close>

text \<open>The regular expression \<open>/^([01]\d|2[0-3]):([0-5]\d):([0-5]\d)$/\<close>, read
  character by character. Without the \<open>m\<close> flag \<open>$\<close> matches at the end of the text only.\<close>

definition charIn :: "char \<Rightarrow> char \<Rightarrow> char \<Rightarrow> bool" where
  "charIn lo hi c = (cc lo \<le> cc c \<and> cc c \<le> cc hi)"

fun isValidTime :: "string \<Rightarrow> bool" where
  "isValidTime [h1, h2, c1, m1, m2, c2, s1, s2] =
     (((charIn (CHR ''0'') (CHR ''1'') h1 \<and> isDigit h2) \<or>
       (h1 = CHR ''2'' \<and> charIn (CHR ''0'') (CHR ''3'') h2)) \<and>
      c1 = CHR '':'' \<and>
      charIn (CHR ''0'') (CHR ''5'') m1 \<and> isDigit m2 \<and>
      c2 = CHR '':'' \<and>
      charIn (CHR ''0'') (CHR ''5'') s1 \<and> isDigit s2)"
| "isValidTime _ = False"

text \<open>\<open>combineDateTime(dateString, timeString?)\<close>. An omitted \<open>timeString\<close> is
  \<open>None\<close>; the empty string is falsy. The call of \<open>logger.warn\<close> in the else branch
  does not change the result and is left out.\<close>

definition combineDateTime :: "string \<Rightarrow> string option \<Rightarrow> string" where
  "combineDateTime dateString timeString =
     (let cleanedDate = trim (hd (splitOn (CHR ''T'') dateString));
          cleanedTime =
            (case timeString of
               None \<Rightarrow> ''00:00:00''
             | Some ts \<Rightarrow>
                 if ts \<noteq> [] \<and> isValidTime (trim (hd (splitOn (CHR ''.'') ts)))
                 then trim (hd (splitOn (CHR ''.'') ts))
                 else ''00:00:00'')
      in cleanedDate @ ''T'' @ cleanedTime @ ''-03:00'')"

text \<open>The file system as \<open>readFileSync(path, "utf-8")\<close> sees it: the decoded text of a
  file, or the error it throws.\<close>

datatype fsError = ReadError string

type_synonym fileTexts = "string \<Rightarrow> fsError + string"

definition tabChar :: char where
  "tabChar = CHR 0x09"

definition newlineChar :: char where
  "newlineChar = CHR 0x0A"

text \<open>The delimiter the first line selects.\<close>

definition delimiterOfLine :: "string \<Rightarrow> char" where
  "delimiterOfLine firstLine =
     (if includesChar firstLine tabChar then tabChar
      else if includesChar firstLine (CHR '';'') then CHR '';''
      else if includesChar firstLine (CHR '','') then CHR '',''
      else CHR '','')"

definition detectDelimiter :: "fileTexts \<Rightarrow> string \<Rightarrow> fsError + char" where
  "detectDelimiter fs filePath =
     (case fs filePath of
        Inl e \<Rightarrow> Inl e
      | Inr text \<Rightarrow> Inr (delimiterOfLine (hd (splitOn newlineChar text))))"

datatype fileFormat = Csv | Tsv

definition detectFileFormat :: "string \<Rightarrow> fileFormat" where
  "detectFileFormat fileName = (if endsWith fileName ''.csv'' then Csv else Tsv)"

section \<open>Schema-unified pipeline (preprocess.ts)\<close>

text \<open>The separator is chosen from the file extension.\<close>

definition detectSeparator :: "string \<Rightarrow> char" where
  "detectSeparator filePath =
     (if endsWith filePath ''.tsv'' then CHR '';''
      else if endsWith filePath ''.csv'' then CHR '',''
      else CHR '','')"

subsection \<open>Field normalisers\<close>

text \<open>
  \<open>new Date(dateString)\<close> is a host function, and for text outside the ISO format its
  result is left to the implementation. The normaliser takes the host as a parameter: the
  local calendar date (year, month, day) of \<open>new Date(s)\<close>, which is what
  \<open>format(parsedDate, "yyyy-MM-dd")\<close> prints, or \<open>InvalidDate\<close>.
\<close>

datatype dateParse = InvalidDate | LocalDate nat nat nat

definition formatDate :: "nat \<Rightarrow> nat \<Rightarrow> nat \<Rightarrow> string" where
  "formatDate y m d =
     padStart0 4 (showNat y) @ ''-'' @ padStart0 2 (showNat m) @ ''-'' @ padStart0 2 (showNat d)"

definition normalizeDate :: "(string \<Rightarrow> dateParse) \<Rightarrow> string \<Rightarrow> string" where
  "normalizeDate host dateString =
     (if dateString = [] then []
      else (case host dateString of
              InvalidDate \<Rightarrow> []
            | LocalDate y m d \<Rightarrow> formatDate y m d))"

definition normalizeTime :: "string \<Rightarrow> string" where
  "normalizeTime timeString =
     (if timeString = [] then []
      else (case splitOn (CHR '':'') timeString of
              h # m # rest \<Rightarrow>
                padStart0 2 h @ '':'' @ padStart0 2 m @ '':'' @
                (case rest of
                   [] \<Rightarrow> ''00''
                 | s # _ \<Rightarrow> if s \<noteq> [] then padStart0 2 s else ''00'')
            | _ \<Rightarrow> []))"

definition parseNumericField :: "string \<Rightarrow> jsnum" where
  "parseNumericField v =
     (if v = [] then Fin 0
      else (let numericValue = replaceFirst (CHR '','') (CHR ''.'') v;
                parsed = parseFloat numericValue
            in if isNaN parsed then Fin 0 else parsed))"

subsection \<open>Node's Date on the two date forms of the incident files\<close>

text \<open>
  Node.js (V8) reads the date-only ISO form \<open>YYYY-MM-DD\<close> as midnight UTC, and the form
  \<open>M/D/YYYY\<close> as month, day, year at local midnight. \<open>nodeDate\<close> covers these two forms
  for a date that exists in the calendar and a year from 1000 to 9999 (V8 moves a year
  below 100 into 19xx or 20xx and rolls a day beyond the end of its month over), on a
  host whose offset from UTC is \<open>utcOffset\<close> minutes (between -24h and +24h): west of
  UTC, midnight UTC is still the day before. It is \<open>None\<close> on every other text: there the
  model says nothing about Node.
\<close>

definition isLeapYear :: "nat \<Rightarrow> bool" where
  "isLeapYear y = (y mod 4 = 0 \<and> (y mod 100 \<noteq> 0 \<or> y mod 400 = 0))"

definition daysInMonth :: "nat \<Rightarrow> nat \<Rightarrow> nat" where
  "daysInMonth y m =
     (if m = 2 then (if isLeapYear y then 29 else 28)
      else if m = 4 \<or> m = 6 \<or> m = 9 \<or> m = 11 then 30 else 31)"

definition previousDay :: "nat \<Rightarrow> nat \<Rightarrow> nat \<Rightarrow> dateParse" where
  "previousDay y m d =
     (if 1 < d then LocalDate y m (d - 1)
      else if 1 < m then LocalDate y (m - 1) (daysInMonth y (m - 1))
      else LocalDate (y - 1) 12 31)"

definition digitString :: "nat \<Rightarrow> nat \<Rightarrow> string \<Rightarrow> bool" where
  "digitString lo hi s = (lo \<le> length s \<and> length s \<le> hi \<and> list_all isDigit s)"

definition calendarDate :: "nat \<Rightarrow> nat \<Rightarrow> nat \<Rightarrow> bool" where
  "calendarDate y m d =
     (1000 \<le> y \<and> y \<le> 9999 \<and> 1 \<le> m \<and> m \<le> 12 \<and> 1 \<le> d \<and> d \<le> daysInMonth y m)"

definition nodeDateAt :: "bool \<Rightarrow> string \<Rightarrow> dateParse option" where
  "nodeDateAt westOfUtc s =
     (case splitOn (CHR ''-'') s of
        [y, m, d] \<Rightarrow>
          if digitString 4 4 y \<and> digitString 2 2 m \<and> digitString 2 2 d \<and>
             calendarDate (digitsValue y) (digitsValue m) (digitsValue d)
          then Some (if westOfUtc
                     then previousDay (digitsValue y) (digitsValue m) (digitsValue d)
                     else LocalDate (digitsValue y) (digitsValue m) (digitsValue d))
          else None
      | _ \<Rightarrow>
          (case splitOn (CHR ''/'') s of
             [m, d, y] \<Rightarrow>
               if digitString 1 2 m \<and> digitString 1 2 d \<and> digitString 4 4 y \<and>
                  calendarDate (digitsValue y) (digitsValue m) (digitsValue d)
               then Some (LocalDate (digitsValue y) (digitsValue m) (digitsValue d))
               else None
           | _ \<Rightarrow> None))"

definition nodeDate :: "int \<Rightarrow> string \<Rightarrow> dateParse option" where
  "nodeDate utcOffset s = nodeDateAt (utcOffset < 0) s"

text \<open>A host that answers as Node where \<open>nodeDate\<close> describes Node, and as \<open>rest\<close>
  on every other text: \<open>rest\<close> stands for the part of Node's \<open>Date\<close> that is not
  modelled, and the theorems hold for every \<open>rest\<close>.\<close>

definition nodeHost :: "(string \<Rightarrow> dateParse) \<Rightarrow> int \<Rightarrow> string \<Rightarrow> dateParse" where
  "nodeHost rest utcOffset s = (case nodeDate utcOffset s of Some r \<Rightarrow> r | None \<Rightarrow> rest s)"

subsection \<open>Files and the csv-parser stream\<close>

text \<open>
  A file, as the parser stream over it behaves: the stream emits \<open>error\<close>, or it
  delivers the lines of the file. (An error of the read stream itself, which
  \<open>collectUniqueHeaders\<close> attaches no handler to, is not modelled.) The first line
  becomes the headers, each passed through \<open>mapHeaders\<close>; a file with no line emits no
  \<open>headers\<close> event at all.

  How csv-parser cuts a line into cells at a separator (with its handling of quotes and
  escapes) is a parameter of the environment, \<open>cutLine\<close>: the library is not part of the
  repository, and the theorems hold for every way of cutting.
\<close>

datatype fileData = StreamError string | Lines "string list"

record env =
  inputDirectory :: string
  readdir :: "string list"
  readFile :: "string \<Rightarrow> fileData"
  cutLine :: "char \<Rightarrow> string \<Rightarrow> string list"
  dateHost :: "string \<Rightarrow> dateParse"

definition pathJoin :: "string \<Rightarrow> string \<Rightarrow> string" where
  "pathJoin dir file = dir @ ''/'' @ file"

text \<open>What csv-parser does with a line that holds no quote character, the only lines of
  the concrete inputs below: an empty line has no cells, any other line is cut at every
  separator.\<close>

definition cutAtSeparator :: "char \<Rightarrow> string \<Rightarrow> string list" where
  "cutAtSeparator separator line = (if line = [] then [] else splitOn separator line)"

text \<open>
  A row is a plain object whose own properties are strings; it is the map of its own
  properties. The members of \<open>Object.prototype\<close> are inherited by every plain object: a
  read of such a name that is not an own property gives the inherited member, and an
  assignment to \<open>__proto__\<close> goes to the inherited setter, which creates no own property
  (it ignores a string, and setting \<open>Object.prototype\<close> itself changes nothing).
\<close>

definition prototypeMembers :: "string list" where
  "prototypeMembers =
     [''constructor'', ''__defineGetter__'', ''__defineSetter__'', ''hasOwnProperty'',
      ''__lookupGetter__'', ''__lookupSetter__'', ''isPrototypeOf'', ''propertyIsEnumerable'',
      ''toString'', ''valueOf'', ''__proto__'', ''toLocaleString'']"

text \<open>csv-parser's \<open>writeRow\<close>: a cell is stored by \<open>o[header] = cell\<close> under the header
  of its column, a cell beyond the headers under \<open>_\<close> and its index; a later column
  overwrites an earlier one of the same name.\<close>

fun writeRow :: "string list \<Rightarrow> nat \<Rightarrow> string list \<Rightarrow> (string \<rightharpoonup> string) \<Rightarrow> (string \<rightharpoonup> string)" where
  "writeRow headers index [] row = row"
| "writeRow headers index (cell # cells) row =
     writeRow headers (Suc index) cells
       (let key = (if index < length headers then headers ! index else CHR ''_'' # showNat index)
        in if key = ''__proto__'' then row else row(key \<mapsto> cell))"

subsection \<open>collectUniqueHeaders\<close>

text \<open>\<open>Set.prototype.add\<close> on a set kept in insertion order.\<close>

definition setAdd :: "string list \<Rightarrow> string \<Rightarrow> string list" where
  "setAdd xs x = (if x \<in> set xs then xs else xs @ [x])"

text \<open>What the promise around the header stream of one file does: it resolves on the
  \<open>headers\<close> event, rejects on \<open>error\<close>, and stays pending when neither event comes.\<close>

datatype headerOutcome = Resolved "string list" | Rejected string | Pending

definition readHeaders :: "env \<Rightarrow> string \<Rightarrow> headerOutcome" where
  "readHeaders e file =
     (let filePath = pathJoin (inputDirectory e) file;
          separator = detectSeparator filePath
      in case readFile e filePath of
           StreamError msg \<Rightarrow> Rejected msg
         | Lines [] \<Rightarrow> Pending
         | Lines (headerLine # _) \<Rightarrow>
             Resolved (map standardizeHeader (cutLine e separator headerLine)))"

text \<open>The loop over the files. A rejected promise is caught and the file skipped; a
  pending one is awaited for ever, so the function does not return (\<open>None\<close>).\<close>

fun collectLoop :: "env \<Rightarrow> string list \<Rightarrow> string list \<Rightarrow> string list option" where
  "collectLoop e [] allHeaders = Some allHeaders"
| "collectLoop e (file # files) allHeaders =
     (case readHeaders e file of
        Resolved headers \<Rightarrow> collectLoop e files (foldl setAdd allHeaders headers)
      | Rejected msg \<Rightarrow> collectLoop e files allHeaders
      | Pending \<Rightarrow> None)"

text \<open>\<open>Array.from(allHeaders).sort()\<close>: the default sort orders strings by code units.\<close>

definition collectUniqueHeaders :: "env \<Rightarrow> string list \<Rightarrow> string list option" where
  "collectUniqueHeaders e files = map_option sort (collectLoop e files [])"

subsection \<open>The row transform of preprocessFile\<close>

text \<open>A value of a record: a string, a number, or the member of \<open>Object.prototype\<close> of
  the given name (a function, or \<open>Object.prototype\<close> itself under \<open>__proto__\<close>). A record
  is the map of its own properties.\<close>

datatype jsval = JStr string | JNum jsnum | JInherited string

type_synonym jsObject = "string \<rightharpoonup> jsval"

datatype exn = TypeError string

text \<open>\<open>row[k]\<close> on a row and \<open>obj[k]\<close> on a record: the own property, else the inherited
  member, else \<open>undefined\<close>.\<close>

definition rowGet :: "(string \<rightharpoonup> string) \<Rightarrow> string \<Rightarrow> jsval option" where
  "rowGet row k =
     (case row k of
        Some v \<Rightarrow> Some (JStr v)
      | None \<Rightarrow> if k \<in> set prototypeMembers then Some (JInherited k) else None)"

definition getProp :: "jsObject \<Rightarrow> string \<Rightarrow> jsval option" where
  "getProp obj k =
     (case obj k of
        Some v \<Rightarrow> Some v
      | None \<Rightarrow> if k \<in> set prototypeMembers then Some (JInherited k) else None)"

text \<open>\<open>obj[k] = v\<close> on a record, for the values this transform assigns: under
  \<open>__proto__\<close> they are strings or \<open>Object.prototype\<close> itself, so the record keeps its
  prototype and gets no own property.\<close>

definition setProp :: "jsObject \<Rightarrow> string \<Rightarrow> jsval \<Rightarrow> jsObject" where
  "setProp obj k v = (if k = ''__proto__'' then obj else obj(k \<mapsto> v))"

text \<open>\<open>v || ""\<close>: \<open>undefined\<close>, the empty string, 0 and \<open>NaN\<close> are falsy.\<close>

definition orEmptyString :: "jsval option \<Rightarrow> jsval" where
  "orEmptyString v =
     (case v of
        None \<Rightarrow> JStr []
      | Some (JStr s) \<Rightarrow> JStr s
      | Some (JNum n) \<Rightarrow> if n = Fin 0 \<or> n = NaN then JStr [] else JNum n
      | Some (JInherited k) \<Rightarrow> JInherited k)"

definition knownNumericFields :: "string list" where
  "knownNumericFields =
     [''auto'', ''moto'', ''ciclom'', ''ciclista'', ''pedestre'', ''onibus'', ''caminhao'',
      ''viatura'', ''outros'', ''vitimas'', ''vitimasfatais'']"

definition isNumericField :: "string \<Rightarrow> bool" where
  "isNumericField header =
     (header \<in> set knownNumericFields \<or> startsWith header ''num_'' \<or> endsWith header ''_count'')"

text \<open>\<open>standardizedRow[header] = row[header] || ""\<close> for every header.\<close>

definition copyColumns :: "string list \<Rightarrow> (string \<rightharpoonup> string) \<Rightarrow> jsObject" where
  "copyColumns allHeaders row =
     foldl (\<lambda>obj header. setProp obj header (orEmptyString (rowGet row header)))
       Map.empty allHeaders"

text \<open>\<open>if (standardizedRow[k]) standardizedRow[k] = f(standardizedRow[k])\<close>, run right
  after the copy for the keys \<open>data\<close> and \<open>hora\<close>, which name no member of
  \<open>Object.prototype\<close>: the field holds a string or is \<open>undefined\<close>, and a missing or
  empty field is falsy.\<close>

definition normalizeField :: "string \<Rightarrow> (string \<Rightarrow> string) \<Rightarrow> jsObject \<Rightarrow> jsObject" where
  "normalizeField k f obj =
     (case getProp obj k of
        Some (JStr v) \<Rightarrow> if v \<noteq> [] then setProp obj k (JStr (f v)) else obj
      | _ \<Rightarrow> obj)"

text \<open>The call \<open>parseNumericField(standardizedRow[field])\<close> on whatever the field holds:
  \<open>undefined\<close>, \<open>0\<close> and \<open>NaN\<close> are falsy and give 0; any other number and an
  inherited member have no \<open>replace\<close> method.\<close>

definition parseNumericFieldOf :: "jsval option \<Rightarrow> exn + jsnum" where
  "parseNumericFieldOf v =
     (case v of
        None \<Rightarrow> Inr (Fin 0)
      | Some (JStr s) \<Rightarrow> Inr (parseNumericField s)
      | Some (JNum n) \<Rightarrow>
          if n = Fin 0 \<or> n = NaN then Inr (Fin 0)
          else Inl (TypeError ''value.replace is not a function'')
      | Some (JInherited k) \<Rightarrow> Inl (TypeError ''value.replace is not a function''))"

fun coerceNumeric :: "string list \<Rightarrow> jsObject \<Rightarrow> exn + jsObject" where
  "coerceNumeric [] obj = Inr obj"
| "coerceNumeric (field # rest) obj =
     (case parseNumericFieldOf (getProp obj field) of
        Inl x \<Rightarrow> Inl x
      | Inr n \<Rightarrow> coerceNumeric rest (setProp obj field (JNum n)))"

definition transformRow :: "(string \<Rightarrow> dateParse) \<Rightarrow> string list \<Rightarrow> (string \<rightharpoonup> string) \<Rightarrow> exn + jsObject" where
  "transformRow host allHeaders row =
     (let standardizedRow = copyColumns allHeaders row;
          standardizedRow = normalizeField ''data'' (normalizeDate host) standardizedRow;
          standardizedRow = normalizeField ''hora'' normalizeTime standardizedRow;
          numericFields = filter isNumericField allHeaders
      in coerceNumeric numericFields standardizedRow)"

text \<open>The records written for one file, in order, and the error that ended the pipeline
  early if there was one (records written before it stay written).\<close>

fun transformRows :: "(string \<Rightarrow> dateParse) \<Rightarrow> string list \<Rightarrow> (string \<rightharpoonup> string) list \<Rightarrow> jsObject list \<times> exn option" where
  "transformRows host allHeaders [] = ([], None)"
| "transformRows host allHeaders (row # rows) =
     (case transformRow host allHeaders row of
        Inl x \<Rightarrow> ([], Some x)
      | Inr r \<Rightarrow> (case transformRows host allHeaders rows of (rs, x) \<Rightarrow> (r # rs, x)))"

definition parsedRows :: "(string \<Rightarrow> string list) \<Rightarrow> string list \<Rightarrow> (string \<rightharpoonup> string) list" where
  "parsedRows cutter ls =
     (case ls of
        [] \<Rightarrow> []
      | headerLine # dataLines \<Rightarrow>
          map (\<lambda>l. writeRow (map standardizeHeader (cutter headerLine)) 0 (cutter l) Map.empty)
            dataLines)"

datatype fileResult = Failed string | Processed "jsObject list" "exn option"

definition preprocessFile :: "env \<Rightarrow> string \<Rightarrow> string list \<Rightarrow> fileResult" where
  "preprocessFile e fileName allHeaders =
     (let filePath = pathJoin (inputDirectory e) fileName;
          separator = detectSeparator filePath
      in case readFile e filePath of
           StreamError msg \<Rightarrow> Failed msg
         | Lines ls \<Rightarrow>
             (case transformRows (dateHost e) allHeaders (parsedRows (cutLine e separator) ls) of
                (records, x) \<Rightarrow> Processed records x))"

definition selectedFile :: "string \<Rightarrow> bool" where
  "selectedFile file =
     (startsWith file ''sinistros'' \<and>
      (endsWith file ''.csv'' \<or> endsWith file ''.tsv'' \<or> endsWith file ''.txt''))"

text \<open>\<open>preprocessAllFiles\<close>: the unified headers and the result for each selected file;
  \<open>None\<close> when the header collection does not return.\<close>

definition preprocessAllFiles :: "env \<Rightarrow> (string list \<times> (string \<times> fileResult) list) option" where
  "preprocessAllFiles e =
     (let files = filter selectedFile (readdir e) in
      case collectUniqueHeaders e files of
        None \<Rightarrow> None
      | Some allHeaders \<Rightarrow>
          Some (allHeaders, map (\<lambda>file. (file, preprocessFile e file allHeaders)) files))"

section \<open>NDJSON pipeline\<close>

subsection \<open>JSON.stringify on strings and on objects of strings\<close>

definition hexDigit :: "nat \<Rightarrow> char" where
  "hexDigit n = ''0123456789abcdef'' ! n"

text \<open>\<open>QuoteJSONString\<close>: the quote, the backslash and the control characters are
  escaped, every other code unit below \<open>U+0100\<close> is copied.\<close>

definition jsonEscape :: "char \<Rightarrow> string" where
  "jsonEscape c =
     (if c = CHR 0x22 then [CHR 0x5C, CHR 0x22]
      else if c = CHR 0x5C then [CHR 0x5C, CHR 0x5C]
      else if c = CHR 0x08 then [CHR 0x5C, CHR ''b'']
      else if c = CHR 0x0C then [CHR 0x5C, CHR ''f'']
      else if c = CHR 0x0A then [CHR 0x5C, CHR ''n'']
      else if c = CHR 0x0D then [CHR 0x5C, CHR ''r'']
      else if c = CHR 0x09 then [CHR 0x5C, CHR ''t'']
      else if cc c < 32 then
        [CHR 0x5C, CHR ''u'', CHR ''0'', CHR ''0'', hexDigit (cc c div 16), hexDigit (cc c mod 16)]
      else [c])"

definition jsonString :: "string \<Rightarrow> string" where
  "jsonString s = CHR 0x22 # concat (map jsonEscape s) @ [CHR 0x22]"

fun joinWith :: "char \<Rightarrow> string list \<Rightarrow> string" where
  "joinWith c [] = []"
| "joinWith c [x] = x"
| "joinWith c (x # y # ys) = x @ c # joinWith c (y # ys)"

text \<open>An object whose values are strings, given by its entries in property order.\<close>

type_synonym csvRow = "(string \<times> string) list"

definition jsonObject :: "csvRow \<Rightarrow> string" where
  "jsonObject entries =
     ''{'' @ joinWith (CHR '','') (map (\<lambda>(k, v). jsonString k @ '':'' @ jsonString v) entries) @ ''}''"

subsection \<open>The transform stream of preprocessFile\<close>

text \<open>A row is the object fast-csv delivers, as \<open>Object.entries\<close> lists it; \<open>row.k\<close> is
  \<open>map_of row k\<close>, \<open>undefined\<close> when the row has no such column.\<close>

text \<open>\<open>a || b\<close> on values that are strings or \<open>undefined\<close>.\<close>

definition orElse :: "string option \<Rightarrow> string option \<Rightarrow> string option" where
  "orElse a b = (case a of None \<Rightarrow> b | Some v \<Rightarrow> if v \<noteq> [] then Some v else b)"

text \<open>\<open>a || ""\<close>.\<close>

definition orEmpty :: "string option \<Rightarrow> string" where
  "orEmpty a = (case a of None \<Rightarrow> [] | Some v \<Rightarrow> v)"

definition consumedKeys :: "string list" where
  "consumedKeys = [''tipo'', ''natureza_acidente'', ''natureza'', ''situacao'', ''data'', ''hora'']"

definition metaEntries :: "csvRow \<Rightarrow> csvRow" where
  "metaEntries row = filter (\<lambda>(k, v). k \<notin> set consumedKeys) row"

record outputRow =
  tipo :: string
  situacao :: string
  datahora :: string
  meta :: string

definition buildRow :: "csvRow \<Rightarrow> outputRow" where
  "buildRow row =
     \<lparr> tipo = orEmpty (orElse (orElse (map_of row ''natureza_acidente'') (map_of row ''natureza''))
                      (map_of row ''tipo'')),
       situacao = orEmpty (map_of row ''situacao''),
       datahora = combineDateTime (orEmpty (map_of row ''data'')) (Some (orEmpty (map_of row ''hora''))),
       meta = jsonObject (metaEntries row) \<rparr>"

text \<open>\<open>JSON.stringify(transformedRow) + "\n"\<close>.\<close>

definition ndjsonLine :: "outputRow \<Rightarrow> string" where
  "ndjsonLine r =
     jsonObject [(''tipo'', tipo r), (''situacao'', situacao r), (''datahora'', datahora r),
                 (''meta'', meta r)] @ [newlineChar]"

text \<open>
  The state the transform works on: the line counter, the lines written to the output
  stream and the entries logged at level \<open>error\<close> (the warnings are not recorded).
  On rows of strings no statement of the \<open>try\<close> block throws by itself, so the
  exceptions are a parameter: \<open>raises row\<close> is the message of the exception that
  building the record of \<open>row\<close> raises, if it raises one. The counter is incremented
  first, inside the \<open>try\<close>; the write is the last statement before \<open>callback()\<close>.
\<close>

record streamState =
  lineNumber :: nat
  written :: "string list"
  errorLog :: "string list"

definition rowErrorMessage :: "string \<Rightarrow> nat \<Rightarrow> string \<Rightarrow> csvRow \<Rightarrow> string" where
  "rowErrorMessage fileName n msg row =
     ''Row transformation error in file '' @ [CHR 0x22] @ fileName @ [CHR 0x22] @ '' at line '' @
     showNat n @ '': '' @ msg @ [newlineChar] @ ''Row: '' @ jsonObject row"

definition transform :: "(csvRow \<Rightarrow> string option) \<Rightarrow> string \<Rightarrow> streamState \<Rightarrow> csvRow \<Rightarrow> streamState" where
  "transform raises fileName st row =
     (case raises row of
        None \<Rightarrow>
          st\<lparr> lineNumber := lineNumber st + 1,
              written := written st @ [ndjsonLine (buildRow row)] \<rparr>
      | Some msg \<Rightarrow>
          st\<lparr> lineNumber := lineNumber st + 1,
              errorLog := errorLog st @ [rowErrorMessage fileName (lineNumber st + 1) msg row] \<rparr>)"

definition transformStream :: "(csvRow \<Rightarrow> string option) \<Rightarrow> string \<Rightarrow> csvRow list \<Rightarrow> streamState" where
  "transformStream raises fileName rows =
     foldl (transform raises fileName) \<lparr> lineNumber = 0, written = [], errorLog = [] \<rparr> rows"

section \<open>The specification's wording, for comparison\<close>

text \<open>Strict \<open>HH:mm:ss\<close>: eight characters, two colons, six digits, the hour at most 23,
  the minute and the second at most 59.\<close>

definition strictTime :: "string \<Rightarrow> bool" where
  "strictTime t =
     (length t = 8 \<and> t ! 2 = CHR '':'' \<and> t ! 5 = CHR '':'' \<and>
      list_all isDigit [t ! 0, t ! 1, t ! 3, t ! 4, t ! 6, t ! 7] \<and>
      digitsValue [t ! 0, t ! 1] \<le> 23 \<and>
      digitsValue [t ! 3, t ! 4] \<le> 59 \<and>
      digitsValue [t ! 6, t ! 7] \<le> 59)"

text \<open>The text before the first occurrence of a character (all of it when there is none).\<close>

definition textBefore :: "char \<Rightarrow> string \<Rightarrow> string" where
  "textBefore c s = takeWhile (\<lambda>x. x \<noteq> c) s"

text \<open>The separator as a function of the file name: the semicolon for \<open>.tsv\<close>, the
  comma for every other name.\<close>

definition extensionSeparator :: "string \<Rightarrow> char" where
  "extensionSeparator file = (if endsWith file ''.tsv'' then CHR '';'' else CHR '','')"






section \<open>Concrete inputs\<close>

text \<open>A \<open>.csv\<close> file whose lines are cut by semicolons.\<close>

definition semicolonCsv :: env where
  "semicolonCsv =
     \<lparr> inputDirectory = ''data'',
       readdir = [''sinistros2020.csv''],
       readFile = (\<lambda>p. if p = ''data/sinistros2020.csv''
                        then Lines [''data;situacao'', ''2024-03-02;Resolvido'']
                        else Lines []),
       cutLine = cutAtSeparator,
       dateHost = nodeHost (\<lambda>s. InvalidDate) 0 \<rparr>"




text \<open>A row of the NDJSON pipeline with the six keys it consumes and one more column.\<close>

definition sevenColumns :: csvRow where
  "sevenColumns =
     [(''tipo'', ''Queda''), (''natureza_acidente'', ''Queda''), (''natureza'', ''Queda''),
      (''situacao'', ''Resolvido''), (''data'', ''2024-03-01''), (''hora'', ''14:30:00''),
      (''bairro'', ''Boa Vista'')]"

text \<open>A stream of three rows of which the second raises.\<close>

definition threeRows :: "csvRow list" where
  "threeRows = [[(''tipo'', ''a'')], [(''bairro'', ''Boa Vista'')], [(''tipo'', ''c'')]]"

definition secondRaises :: "csvRow \<Rightarrow> string option" where
  "secondRaises row = (if row = [(''bairro'', ''Boa Vista'')] then Some ''boom'' else None)"



section \<open>Properties\<close>

subsection \<open>Properties of the string functions\<close>

lemma splitOn_nonempty: "splitOn c s \<noteq> []"
  by (induction s) (auto split: list.splits)

lemma hd_splitOn: "hd (splitOn c s) = takeWhile (\<lambda>x. x \<noteq> c) s"
  using splitOn_nonempty by (induction s) (auto split: list.splits)








lemma cc_inj: "cc a = cc b \<Longrightarrow> a = b"
  by (simp add: cc_def)

lemma isValidTime_length: "isValidTime t \<Longrightarrow> length t = 8"
  by (erule isValidTime.elims) auto

lemma list8: "length t = 8 \<Longrightarrow> \<exists>a b c d e f g h. t = [a, b, c, d, e, f, g, h]"
  by (auto simp: length_Suc_conv eval_nat_numeral)

lemma cc_colon: "(c = CHR '':'') = (cc c = 58)"
  using cc_inj [of c "CHR '':''"] by (auto simp: cc_def)

lemma cc_two: "(c = CHR ''2'') = (cc c = 50)"
  using cc_inj [of c "CHR ''2''"] by (auto simp: cc_def)

lemma hour_range:
  "(((charIn (CHR ''0'') (CHR ''1'') a \<and> isDigit b) \<or> (a = CHR ''2'' \<and> charIn (CHR ''0'') (CHR ''3'') b)))
   = (isDigit a \<and> isDigit b \<and> digitsValue [a, b] \<le> 23)"
  unfolding cc_two by (auto simp: charIn_def isDigit_def digitsValue_def cc_def)

lemma minute_range:
  "(charIn (CHR ''0'') (CHR ''5'') a \<and> isDigit b) = (isDigit a \<and> isDigit b \<and> digitsValue [a, b] \<le> 59)"
  by (auto simp: charIn_def isDigit_def digitsValue_def cc_def)

lemma isValidTime_strictTime: "isValidTime t = strictTime t"
proof (cases "length t = 8")
  case True
  then obtain a b c d e f g h where t: "t = [a, b, c, d, e, f, g, h]"
    using list8 by blast
  show ?thesis
    unfolding t
    using hour_range [of a b] minute_range [of d e] minute_range [of g h]
    by (auto simp: strictTime_def)
next
  case False
  then show ?thesis
    using isValidTime_length by (auto simp: strictTime_def)
qed

section \<open>Claims\<close>


text \<open>
  C4. \<open>combineDateTime\<close> returns the date, \<open>T\<close>, the time and \<open>-03:00\<close>: the date is the
  trimmed text before the first \<open>T\<close>; the time is the trimmed text of \<open>timeString\<close> before
  the first dot when that is a strict \<open>HH:mm:ss\<close>, and \<open>00:00:00\<close> otherwise.
\<close>

theorem combineDateTime_format:
  "combineDateTime dateString timeString =
     trim (textBefore (CHR ''T'') dateString) @ ''T'' @
     (case timeString of
        None \<Rightarrow> ''00:00:00''
      | Some ts \<Rightarrow>
          if strictTime (trim (textBefore (CHR ''.'') ts)) then trim (textBefore (CHR ''.'') ts)
          else ''00:00:00'') @ ''-03:00'' \<and>
   combineDateTime ''2024-03-01'' (Some ''14:30:00'') = ''2024-03-01T14:30:00-03:00'' \<and>
   combineDateTime ''2024-03-01T10:00:00Z'' (Some ''bad-time'') = ''2024-03-01T00:00:00-03:00''"
proof -
  have empty: "\<not> strictTime (trim (textBefore (CHR ''.'') []))"
    by (simp add: strictTime_def trim_def textBefore_def)
  have general: "combineDateTime dateString timeString =
     trim (textBefore (CHR ''T'') dateString) @ ''T'' @
     (case timeString of
        None \<Rightarrow> ''00:00:00''
      | Some ts \<Rightarrow>
          if strictTime (trim (textBefore (CHR ''.'') ts)) then trim (textBefore (CHR ''.'') ts)
          else ''00:00:00'') @ ''-03:00''"
  proof (cases timeString)
    case None
    then show ?thesis
      by (simp add: combineDateTime_def hd_splitOn textBefore_def)
  next
    case (Some ts)
    show ?thesis
    proof (cases "ts = []")
      case True
      with Some empty show ?thesis
        by (simp add: combineDateTime_def hd_splitOn textBefore_def)
    next
      case False
      with Some show ?thesis
        by (simp add: combineDateTime_def hd_splitOn textBefore_def isValidTime_strictTime)
    qed
  qed
  have ex1: "combineDateTime ''2024-03-01'' (Some ''14:30:00'') = ''2024-03-01T14:30:00-03:00''"
    by (simp add: combineDateTime_def trim_def isWhiteSpace_def cc_def charIn_def isDigit_def)
  have ex2: "combineDateTime ''2024-03-01T10:00:00Z'' (Some ''bad-time'') = ''2024-03-01T00:00:00-03:00''"
    by (simp add: combineDateTime_def trim_def isWhiteSpace_def cc_def)
  show ?thesis
    by (rule conjI [OF general conjI [OF ex1 ex2]])
qed

text \<open>
  C10. With an empty date text \<open>combineDateTime\<close> returns \<open>T\<close>, the time and \<open>-03:00\<close>;
  for two empty texts it returns \<open>T00:00:00-03:00\<close>. So a row of the NDJSON pipeline
  without a \<open>data\<close> column (or with an empty one) gets a \<open>datahora\<close> that starts with \<open>T\<close>.
\<close>

theorem combineDateTime_empty_date:
  "combineDateTime [] timeString =
     ''T'' @ (case timeString of
                None \<Rightarrow> ''00:00:00''
              | Some ts \<Rightarrow>
                  if isValidTime (trim (textBefore (CHR ''.'') ts))
                  then trim (textBefore (CHR ''.'') ts) else ''00:00:00'') @ ''-03:00'' \<and>
   combineDateTime [] (Some []) = ''T00:00:00-03:00'' \<and>
   (orEmpty (map_of row ''data'') = [] \<longrightarrow>
      datahora (buildRow row) = combineDateTime [] (Some (orEmpty (map_of row ''hora''))) \<and>
      take 1 (datahora (buildRow row)) = ''T'')"
proof -
  have e: "\<not> isValidTime (trim (textBefore (CHR ''.'') []))"
    by (simp add: trim_def textBefore_def)
  have a: "combineDateTime [] ts =
     ''T'' @ (case ts of
                None \<Rightarrow> ''00:00:00''
              | Some ts \<Rightarrow>
                  if isValidTime (trim (textBefore (CHR ''.'') ts))
                  then trim (textBefore (CHR ''.'') ts) else ''00:00:00'') @ ''-03:00''" for ts
    using e by (cases ts) (auto simp: combineDateTime_def trim_def hd_splitOn textBefore_def)
  have b: "combineDateTime [] (Some []) = ''T00:00:00-03:00''"
    by (simp add: combineDateTime_def trim_def)
  have c: "take 1 (combineDateTime [] ts) = ''T''" for ts
    by (simp add: a)
  show ?thesis
    using a [of timeString] b c by (simp add: buildRow_def)
qed

theorem combineDateTime_empty_date_witness:
  "orEmpty (map_of [(''hora'', ''10:15:00''), (''bairro'', ''Boa Vista'')] ''data'') = [] \<and>
   datahora (buildRow [(''hora'', ''10:15:00''), (''bairro'', ''Boa Vista'')]) = ''T10:15:00-03:00''"
proof -
  have h: "orEmpty (map_of [(''hora'', ''10:15:00''), (''bairro'', ''Boa Vista'')] ''data'') = []"
    by (simp add: orEmpty_def)
  have v: "combineDateTime [] (Some (orEmpty (map_of [(''hora'', ''10:15:00''), (''bairro'', ''Boa Vista'')] ''hora'')))
      = ''T10:15:00-03:00''"
    by (simp add: combineDateTime_def orEmpty_def trim_def isWhiteSpace_def cc_def charIn_def isDigit_def)
  from combineDateTime_empty_date [of None "[(''hora'', ''10:15:00''), (''bairro'', ''Boa Vista'')]"] h v
  show ?thesis by simp
qed

text \<open>
  C5. For a file that can be read, \<open>detectDelimiter\<close> depends on the text before the first
  line feed only: it returns the tab when that line holds one, else the semicolon when it
  holds one, else the comma, whether a comma is there or not.
\<close>

theorem detectDelimiter_first_line:
  assumes "fs filePath = Inr text"
  shows "detectDelimiter fs filePath =
     Inr (if tabChar \<in> set (textBefore newlineChar text) then tabChar
          else if CHR '';'' \<in> set (textBefore newlineChar text) then CHR '';''
          else CHR '','')"
  using assms
  by (simp add: detectDelimiter_def delimiterOfLine_def includesChar_def hd_splitOn textBefore_def)

theorem detectDelimiter_first_line_witness:
  "detectDelimiter (\<lambda>p. Inr (''a'' @ [tabChar] @ ''b;c'' @ [newlineChar] @ ''x,y'')) ''in.csv'' = Inr tabChar \<and>
   detectDelimiter (\<lambda>p. Inr []) ''empty.csv'' = Inr (CHR '','')"
proof -
  have a: "detectDelimiter (\<lambda>p. Inr (''a'' @ [tabChar] @ ''b;c'' @ [newlineChar] @ ''x,y'')) ''in.csv'' = Inr tabChar"
    using detectDelimiter_first_line
      [of "\<lambda>p. Inr (''a'' @ [tabChar] @ ''b;c'' @ [newlineChar] @ ''x,y'')" "''in.csv''"
          "''a'' @ [tabChar] @ ''b;c'' @ [newlineChar] @ ''x,y''"]
    by (simp add: textBefore_def tabChar_def newlineChar_def)
  have b: "detectDelimiter (\<lambda>p. Inr []) ''empty.csv'' = Inr (CHR '','')"
    using detectDelimiter_first_line [of "\<lambda>p. Inr []" "''empty.csv''" "[]"]
    by (simp add: textBefore_def)
  show ?thesis
    by (rule conjI [OF a b])
qed

lemmas number_defs =
  parseNumericField_def parseFloat_def trimStart_def isWhiteSpace_def cc_def startsWith_def
  unsignedDecimal_def isDigit_def digitsValue_def pow10_def exponentPart_def roundToNumber_def
  isNaN_def isFinite_def

text \<open>
  C3, as the code has it. \<open>parseNumericField\<close> is total and never returns \<open>NaN\<close>: it
  returns 0 for the empty text and for text that \<open>parseFloat\<close> cannot read, and what
  \<open>parseFloat\<close> reads after the first comma became a dot otherwise, which is finite or
  one of the two infinities.
\<close>

theorem parseNumericField_number:
  "\<not> isNaN (parseNumericField v) \<and>
   parseNumericField v =
     (if v = [] \<or> isNaN (parseFloat (replaceFirst (CHR '','') (CHR ''.'') v)) then Fin 0
      else parseFloat (replaceFirst (CHR '','') (CHR ''.'') v)) \<and>
   isFinite (parseNumericField v) =
     (parseNumericField v \<noteq> PosInfinity \<and> parseNumericField v \<noteq> NegInfinity) \<and>
   parseNumericField [] = Fin 0 \<and>
   parseNumericField ''1,5'' = Fin (3 / 2) \<and>
   parseNumericField ''abc'' = Fin 0"
proof -
  have a: "\<not> isNaN (parseNumericField v)"
    by (simp add: parseNumericField_def isNaN_def Let_def)
  have b: "parseNumericField v =
     (if v = [] \<or> isNaN (parseFloat (replaceFirst (CHR '','') (CHR ''.'') v)) then Fin 0
      else parseFloat (replaceFirst (CHR '','') (CHR ''.'') v))"
    by (simp add: parseNumericField_def Let_def)
  have c: "isFinite (parseNumericField v) =
     (parseNumericField v \<noteq> PosInfinity \<and> parseNumericField v \<noteq> NegInfinity)"
    using a by (cases "parseNumericField v") (simp_all add: isFinite_def isNaN_def)
  have d: "parseNumericField [] = Fin 0"
    by (simp add: parseNumericField_def)
  have e: "parseNumericField ''1,5'' = Fin (3 / 2)"
    by (simp add: number_defs)
  have f: "parseNumericField ''abc'' = Fin 0"
    by (simp add: number_defs)
  show ?thesis
    by (rule conjI [OF a conjI [OF b conjI [OF c conjI [OF d conjI [OF e f]]]]])
qed

text \<open>
  C3 as stated fails: the text \<open>Infinity\<close> is read by \<open>parseFloat\<close> as the Number
  \<open>Infinity\<close>, which is not \<open>NaN\<close> and so is returned; a decimal too large for a double,
  such as \<open>1e309\<close>, gives the same.
\<close>

theorem parseNumericField_infinite:
  "\<not> isFinite (parseNumericField ''Infinity'') \<and> parseNumericField ''Infinity'' = PosInfinity \<and>
   parseNumericField ''1e309'' = PosInfinity"
proof -
  have a: "parseNumericField ''Infinity'' = PosInfinity"
    by (simp add: number_defs)
  have b: "parseNumericField ''1e309'' = PosInfinity"
    by (simp add: number_defs)
  have c: "\<not> isFinite (parseNumericField ''Infinity'')"
    by (simp add: a isFinite_def)
  show ?thesis
    by (rule conjI [OF c conjI [OF a b]])
qed

text \<open>The transform stream, started in any state.\<close>

lemma foldl_transform:
  "lineNumber (foldl (transform raises fileName) st rows) = lineNumber st + length rows \<and>
   written (foldl (transform raises fileName) st rows) =
     written st @ map (\<lambda>r. ndjsonLine (buildRow r)) (filter (\<lambda>r. raises r = None) rows) \<and>
   errorLog (foldl (transform raises fileName) st rows) =
     errorLog st @
     map (\<lambda>(i, r). rowErrorMessage fileName (Suc i) (the (raises r)) r)
       (filter (\<lambda>(i, r). raises r \<noteq> None) (enumerate (lineNumber st) rows))"
proof (induction rows arbitrary: st)
  case Nil
  show ?case by simp
next
  case (Cons row rows)
  define st' where "st' = transform raises fileName st row"
  have n: "lineNumber st' = Suc (lineNumber st)"
    by (simp add: st'_def transform_def split: option.splits)
  have w: "written st' =
      written st @ map (\<lambda>r. ndjsonLine (buildRow r)) (filter (\<lambda>r. raises r = None) [row])"
    by (simp add: st'_def transform_def split: option.splits)
  have l: "errorLog st' =
      errorLog st @
      map (\<lambda>(i, r). rowErrorMessage fileName (Suc i) (the (raises r)) r)
        (filter (\<lambda>(i, r). raises r \<noteq> None) [(lineNumber st, row)])"
    by (simp add: st'_def transform_def split: option.splits)
  have step: "foldl (transform raises fileName) st (row # rows) =
      foldl (transform raises fileName) st' rows"
    by (simp add: st'_def)
  show ?case
    unfolding step
    by (simp add: Cons.IH [of st'] n w l)
qed

text \<open>The decimal text of a number denotes that number.\<close>

lemma digitsValue_snoc: "digitsValue (ds @ [c]) = 10 * digitsValue ds + (cc c - 48)"
  by (simp add: digitsValue_def)

lemma cc_digit: "n < 10 \<Longrightarrow> cc (char_of (48 + n)) = 48 + n"
  by (simp add: cc_def)

lemma digitsValue_showNat: "digitsValue (showNat n) = n"
proof (induction n rule: showNat.induct)
  case (1 n)
  show ?case
  proof (cases "n < 10")
    case True
    then show ?thesis
      using digitsValue_snoc [of "[]" "char_of (48 + n)"]
      by (simp add: showNat.simps [of n] cc_digit digitsValue_def)
  next
    case False
    then have "digitsValue (showNat n) = 10 * (n div 10) + n mod 10"
      using "1.IH" by (simp add: showNat.simps [of n] digitsValue_snoc cc_digit)
    then show ?thesis by simp
  qed
qed

text \<open>
  C9. Whatever rows raise while their record is built, the stream counts every row, writes
  one line for each row that does not raise, in order, and logs one error entry for each
  row that raises; the rows after a raising row are processed like any other. The entry
  names the file, gives the 1-based number of the row in decimal, the message of the
  exception and, after \<open>Row:\<close>, the row as JSON. Of three rows of which the second
  raises, the first and the third are written and the second is logged as line 2.
\<close>

theorem transformStream_skips_failed_rows:
  "lineNumber (transformStream raises fileName rows) = length rows \<and>
   written (transformStream raises fileName rows) =
     map (\<lambda>r. ndjsonLine (buildRow r)) (filter (\<lambda>r. raises r = None) rows) \<and>
   errorLog (transformStream raises fileName rows) =
     map (\<lambda>(i, r).
            ''Row transformation error in file '' @ [CHR 0x22] @ fileName @ [CHR 0x22] @
            '' at line '' @ showNat (Suc i) @ '': '' @ the (raises r) @ [CHR 0x0A] @
            ''Row: '' @ jsonObject r)
       (filter (\<lambda>(i, r). raises r \<noteq> None) (enumerate 0 rows)) \<and>
   digitsValue (showNat n) = n \<and>
   errorLog (transformStream secondRaises ''f.csv'' threeRows) =
     [''Row transformation error in file '' @ [CHR 0x22] @ ''f.csv'' @ [CHR 0x22] @
      '' at line 2: boom'' @ [CHR 0x0A] @
      ''Row: {'' @ [CHR 0x22] @ ''bairro'' @ [CHR 0x22] @ '':'' @ [CHR 0x22] @ ''Boa Vista'' @
      [CHR 0x22] @ ''}''] \<and>
   written (transformStream secondRaises ''f.csv'' threeRows) =
     [ndjsonLine (buildRow [(''tipo'', ''a'')]), ndjsonLine (buildRow [(''tipo'', ''c'')])] \<and>
   ndjsonLine (buildRow [(''tipo'', ''a'')]) =
     ''{'' @ [CHR 0x22] @ ''tipo'' @ [CHR 0x22] @ '':'' @ [CHR 0x22] @ ''a'' @ [CHR 0x22] @ '','' @
     [CHR 0x22] @ ''situacao'' @ [CHR 0x22] @ '':'' @ [CHR 0x22, CHR 0x22] @ '','' @
     [CHR 0x22] @ ''datahora'' @ [CHR 0x22] @ '':'' @ [CHR 0x22] @ ''T00:00:00-03:00'' @ [CHR 0x22] @ '','' @
     [CHR 0x22] @ ''meta'' @ [CHR 0x22] @ '':'' @ [CHR 0x22] @ ''{}'' @ [CHR 0x22] @ ''}'' @ [CHR 0x0A]"
proof -
  note f = foldl_transform [of raises fileName "\<lparr> lineNumber = 0, written = [], errorLog = [] \<rparr>" rows]
  have a: "lineNumber (transformStream raises fileName rows) = length rows"
    using f by (simp add: transformStream_def)
  have b: "written (transformStream raises fileName rows) =
     map (\<lambda>r. ndjsonLine (buildRow r)) (filter (\<lambda>r. raises r = None) rows)"
    using f by (simp add: transformStream_def)
  have c: "errorLog (transformStream raises fileName rows) =
     map (\<lambda>(i, r).
            ''Row transformation error in file '' @ [CHR 0x22] @ fileName @ [CHR 0x22] @
            '' at line '' @ showNat (Suc i) @ '': '' @ the (raises r) @ [CHR 0x0A] @
            ''Row: '' @ jsonObject r)
       (filter (\<lambda>(i, r). raises r \<noteq> None) (enumerate 0 rows))"
    using f by (simp add: transformStream_def rowErrorMessage_def newlineChar_def)
  have d: "errorLog (transformStream secondRaises ''f.csv'' threeRows) =
     [''Row transformation error in file '' @ [CHR 0x22] @ ''f.csv'' @ [CHR 0x22] @
      '' at line 2: boom'' @ [CHR 0x0A] @
      ''Row: {'' @ [CHR 0x22] @ ''bairro'' @ [CHR 0x22] @ '':'' @ [CHR 0x22] @ ''Boa Vista'' @
      [CHR 0x22] @ ''}'']"
    by code_simp
  have e: "written (transformStream secondRaises ''f.csv'' threeRows) =
     [ndjsonLine (buildRow [(''tipo'', ''a'')]), ndjsonLine (buildRow [(''tipo'', ''c'')])]"
    by code_simp
  have g: "ndjsonLine (buildRow [(''tipo'', ''a'')]) =
     ''{'' @ [CHR 0x22] @ ''tipo'' @ [CHR 0x22] @ '':'' @ [CHR 0x22] @ ''a'' @ [CHR 0x22] @ '','' @
     [CHR 0x22] @ ''situacao'' @ [CHR 0x22] @ '':'' @ [CHR 0x22, CHR 0x22] @ '','' @
     [CHR 0x22] @ ''datahora'' @ [CHR 0x22] @ '':'' @ [CHR 0x22] @ ''T00:00:00-03:00'' @ [CHR 0x22] @ '','' @
     [CHR 0x22] @ ''meta'' @ [CHR 0x22] @ '':'' @ [CHR 0x22] @ ''{}'' @ [CHR 0x22] @ ''}'' @ [CHR 0x0A]"
    by code_simp
  show ?thesis
    by (rule conjI [OF a conjI [OF b conjI [OF c conjI [OF digitsValue_showNat conjI [OF d conjI [OF e g]]]]]])
qed

text \<open>The six keys are different, and a row that holds nothing but one of them has an
  empty \<open>meta\<close>.\<close>

lemma consumedKeys_six: "distinct consumedKeys \<and> length consumedKeys = 6"
  by (simp add: consumedKeys_def)

lemma card_consumedKeys: "card (set consumedKeys) = 6"
  using consumedKeys_six distinct_card by fastforce

lemma metaEntries_single: "metaEntries [(k, v)] = (if k \<in> set consumedKeys then [] else [(k, v)])"
  by (simp add: metaEntries_def)

text \<open>
  C8, as the code has it. \<open>meta\<close> is the JSON text of the entries of the row, in their
  order, whose key is none of the six keys \<open>tipo\<close>, \<open>natureza_acidente\<close>, \<open>natureza\<close>,
  \<open>situacao\<close>, \<open>data\<close> and \<open>hora\<close>; every other entry of the row is among them unchanged.
\<close>

theorem meta_excludes_six_keys:
  "meta (buildRow row) = jsonObject (filter (\<lambda>(k, v). k \<notin> set consumedKeys) row) \<and>
   set (metaEntries row) = {(k, v). (k, v) \<in> set row \<and> k \<notin> set consumedKeys} \<and>
   set consumedKeys =
     {''tipo'', ''natureza_acidente'', ''natureza'', ''situacao'', ''data'', ''hora''} \<and>
   card (set consumedKeys) = 6"
proof -
  have a: "meta (buildRow row) = jsonObject (filter (\<lambda>(k, v). k \<notin> set consumedKeys) row)"
    by (simp add: buildRow_def metaEntries_def)
  have b: "set (metaEntries row) = {(k, v). (k, v) \<in> set row \<and> k \<notin> set consumedKeys}"
    by (auto simp: metaEntries_def)
  have c: "set consumedKeys =
     {''tipo'', ''natureza_acidente'', ''natureza'', ''situacao'', ''data'', ''hora''}"
    by (simp add: consumedKeys_def)
  show ?thesis
    by (rule conjI [OF a conjI [OF b conjI [OF c card_consumedKeys]]])
qed

text \<open>
  C8 as stated fails on the number of keys: of the seven entries of the row below, six are
  left out of \<open>meta\<close>, not five; and no set of five keys gives the entries of \<open>meta\<close>
  for every row.
\<close>

theorem meta_not_five_keys:
  "length sevenColumns = 7 \<and> distinct (map fst sevenColumns) \<and>
   metaEntries sevenColumns = [(''bairro'', ''Boa Vista'')] \<and>
   \<not> (\<exists>K. card K = 5 \<and> (\<forall>row. metaEntries row = filter (\<lambda>(k, v). k \<notin> K) row))"
proof (intro conjI)
  show "length sevenColumns = 7"
    by (simp add: sevenColumns_def)
  show "distinct (map fst sevenColumns)"
    by (simp add: sevenColumns_def)
  show "metaEntries sevenColumns = [(''bairro'', ''Boa Vista'')]"
    by (simp add: sevenColumns_def metaEntries_def consumedKeys_def)
  show "\<not> (\<exists>K. card K = 5 \<and> (\<forall>row. metaEntries row = filter (\<lambda>(k, v). k \<notin> K) row))"
  proof
  assume "\<exists>K. card K = 5 \<and> (\<forall>row. metaEntries row = filter (\<lambda>(k, v). k \<notin> K) row)"
  then obtain K where K: "card K = 5"
    and all: "\<And>row. metaEntries row = filter (\<lambda>(k, v). k \<notin> K) row"
    by blast
  have fin: "finite K"
    using K by (simp add: card_ge_0_finite)
  have "set consumedKeys \<subseteq> K"
  proof
    fix k assume k: "k \<in> set consumedKeys"
    have "metaEntries [(k, [])] = filter (\<lambda>(k, v). k \<notin> K) [(k, [])]"
      by (rule all)
    with k show "k \<in> K"
      by (simp add: metaEntries_single split: if_splits)
  qed
  then have "card (set consumedKeys) \<le> card K"
    using fin by (rule card_mono [rotated])
  with K card_consumedKeys show False by simp
  qed
qed

lemma endsWith_iff: "endsWith s suf = (\<exists>p. s = p @ suf)"
proof
  assume "endsWith s suf"
  then have "s = take (length s - length suf) s @ suf"
    by (metis append_take_drop_id endsWith_def)
  then show "\<exists>p. s = p @ suf" ..
next
  assume "\<exists>p. s = p @ suf"
  then show "endsWith s suf"
    by (auto simp: endsWith_def)
qed

lemma endsWith_pathJoin:
  assumes "CHR ''/'' \<notin> set suf"
  shows "endsWith (pathJoin dir file) suf = endsWith file suf"
proof
  assume "endsWith (pathJoin dir file) suf"
  then obtain p where p: "dir @ CHR ''/'' # file = p @ suf"
    by (auto simp: endsWith_iff pathJoin_def)
  then obtain us where us: "(dir = p @ us \<and> us @ CHR ''/'' # file = suf) \<or>
      (dir @ us = p \<and> CHR ''/'' # file = us @ suf)"
    by (auto simp: append_eq_append_conv2)
  from assms us have 2: "CHR ''/'' # file = us @ suf"
    by auto
  with assms obtain us' where "us = CHR ''/'' # us'"
    by (cases us) auto
  with 2 have "file = us' @ suf" by simp
  then show "endsWith file suf"
    by (auto simp: endsWith_iff)
next
  assume "endsWith file suf"
  then obtain q where "file = q @ suf"
    by (auto simp: endsWith_iff)
  then have "pathJoin dir file = (dir @ CHR ''/'' # q) @ suf"
    by (simp add: pathJoin_def)
  then show "endsWith (pathJoin dir file) suf"
    unfolding endsWith_iff by blast
qed

lemma detectSeparator_pathJoin: "detectSeparator (pathJoin dir file) = extensionSeparator file"
proof -
  have "endsWith (pathJoin dir file) ''.tsv'' = endsWith file ''.tsv''"
    by (rule endsWith_pathJoin) simp
  then show ?thesis
    by (simp add: detectSeparator_def extensionSeparator_def)
qed

text \<open>
  C6, as the code has it. In the schema-unified pipeline the separator is the one the
  file name selects, for the header collection and for the rows alike: the first line is
  cut, and the rows are parsed, at the semicolon for a \<open>.tsv\<close> name and at the comma for
  any other name, whatever the lines hold.
\<close>

theorem separator_from_extension:
  assumes "readFile e (pathJoin (inputDirectory e) file) = Lines (headerLine # dataLines)"
  shows "readHeaders e file =
           Resolved (map standardizeHeader (cutLine e (extensionSeparator file) headerLine)) \<and>
         preprocessFile e file allHeaders =
           (case transformRows (dateHost e) allHeaders
                   (parsedRows (cutLine e (extensionSeparator file)) (headerLine # dataLines)) of
              (records, x) \<Rightarrow> Processed records x) \<and>
         extensionSeparator file = (if endsWith file ''.tsv'' then CHR '';'' else CHR '','')"
  using assms
  by (simp add: readHeaders_def preprocessFile_def detectSeparator_pathJoin extensionSeparator_def)

lemma semicolonCsv_file:
  "readFile semicolonCsv (pathJoin (inputDirectory semicolonCsv) ''sinistros2020.csv'') =
     Lines [''data;situacao'', ''2024-03-02;Resolvido'']"
  by (simp add: semicolonCsv_def pathJoin_def)

lemma semicolonCsv_cells:
  "map standardizeHeader (cutLine semicolonCsv (extensionSeparator ''sinistros2020.csv'') ''data;situacao'') =
     [''datasituacao'']"
  by code_simp

theorem separator_from_extension_witness:
  "readFile semicolonCsv (pathJoin (inputDirectory semicolonCsv) ''sinistros2020.csv'') =
     Lines [''data;situacao'', ''2024-03-02;Resolvido''] \<and>
   readHeaders semicolonCsv ''sinistros2020.csv'' = Resolved [''datasituacao'']"
  using separator_from_extension [OF semicolonCsv_file] semicolonCsv_file
  by (simp only: semicolonCsv_cells simp_thms)

text \<open>
  C6 as stated fails: for a \<open>.csv\<close> file whose first line is \<open>data;situacao\<close> the
  content-based detection gives the semicolon, the pipeline cuts at the comma and collects
  the one header \<open>datasituacao\<close>.
\<close>

theorem separator_not_from_content:
  "readHeaders semicolonCsv ''sinistros2020.csv'' \<noteq>
     Resolved (map standardizeHeader
       (cutLine semicolonCsv (delimiterOfLine ''data;situacao'') ''data;situacao'')) \<and>
   delimiterOfLine ''data;situacao'' = CHR '';'' \<and>
   detectSeparator (pathJoin (inputDirectory semicolonCsv) ''sinistros2020.csv'') = CHR '','' \<and>
   collectUniqueHeaders semicolonCsv (readdir semicolonCsv) = Some [''datasituacao'']"
proof -
  have r: "readHeaders semicolonCsv ''sinistros2020.csv'' = Resolved [''datasituacao'']"
    by code_simp
  have c: "map standardizeHeader
      (cutLine semicolonCsv (delimiterOfLine ''data;situacao'') ''data;situacao'') =
      [''data'', ''situacao'']"
    by code_simp
  have a: "readHeaders semicolonCsv ''sinistros2020.csv'' \<noteq>
     Resolved (map standardizeHeader
       (cutLine semicolonCsv (delimiterOfLine ''data;situacao'') ''data;situacao''))"
    unfolding r c by simp
  have b: "delimiterOfLine ''data;situacao'' = CHR '';''"
    by code_simp
  have d: "detectSeparator (pathJoin (inputDirectory semicolonCsv) ''sinistros2020.csv'') = CHR '',''"
    by code_simp
  have e: "collectUniqueHeaders semicolonCsv (readdir semicolonCsv) = Some [''datasituacao'']"
    by code_simp
  show ?thesis
    by (rule conjI [OF a conjI [OF b conjI [OF d e]]])
qed



































end
